theory Spec2Isabelle
  imports Complex_Main "HOL-Library.Word" "HOL-Library.Sublist"
begin

section \<open>JavaScript strings\<close>

text \<open>
  A JavaScript string is a sequence of UTF-16 code units. \<open>String.prototype.trim\<close>, the
  regular-expression class \<open>\s\<close> and the string-to-number conversion all work on code
  units, so the model keeps them: a code unit is a 16-bit word.
  \<open>js\<close> embeds an ASCII literal.
\<close>

type_synonym cu = "16 word"
type_synonym jsstring = "cu list"

definition js :: "string \<Rightarrow> jsstring" where
  "js s = map of_char s"

definition TAB :: cu where "TAB = 0x09"
definition LF :: cu where "LF = 0x0A"

text \<open>
  ECMAScript \<open>WhiteSpace\<close> and \<open>LineTerminator\<close>: the characters matched by \<open>\s\<close> and
  stripped by \<open>trim\<close> (TAB, LF, VT, FF, CR, SP, NBSP, U+1680, U+2000..U+200A, U+2028,
  U+2029, U+202F, U+205F, U+3000, U+FEFF).
\<close>

definition isWhiteSpace :: "cu \<Rightarrow> bool" where
  "isWhiteSpace c =
     (c = 0x09 \<or> c = 0x0A \<or> c = 0x0B \<or> c = 0x0C \<or> c = 0x0D \<or> c = 0x20 \<or> c = 0xA0
      \<or> c = 0x1680 \<or> (0x2000 \<le> c \<and> c \<le> 0x200A) \<or> c = 0x2028 \<or> c = 0x2029
      \<or> c = 0x202F \<or> c = 0x205F \<or> c = 0x3000 \<or> c = 0xFEFF)"

text \<open>\<open>s.trim()\<close>\<close>

definition trim :: "jsstring \<Rightarrow> jsstring" where
  "trim s = rev (dropWhile isWhiteSpace (rev (dropWhile isWhiteSpace s)))"

text \<open>
  \<open>text.split('\n')\<close>: the pieces between line feeds; the empty string gives one empty
  piece, and a trailing line feed gives a trailing empty piece.
\<close>

fun splitLF :: "jsstring \<Rightarrow> jsstring list" where
  "splitLF [] = [[]]"
| "splitLF (c # cs) =
     (if c = LF then [] # splitLF cs
      else (case splitLF cs of [] \<Rightarrow> [[c]] | l # ls \<Rightarrow> (c # l) # ls))"

section \<open>The regular expression \<open>/\t|\s{2,}/\<close>\<close>

text \<open>
  \<open>matchAt s\<close> is the length of the match of \<open>/\t|\s{2,}/\<close> anchored at the start of \<open>s\<close>,
  if there is one. The alternatives are tried in order: a tab at the position is matched
  alone by the first alternative; otherwise \<open>\s{2,}\<close> takes, greedily, the whole run of
  white space there, when it has at least two characters.
\<close>

definition matchAt :: "jsstring \<Rightarrow> nat option" where
  "matchAt s =
     (case s of
        [] \<Rightarrow> None
      | c # cs \<Rightarrow>
          if c = TAB then Some 1
          else (let n = length (takeWhile isWhiteSpace s) in
                if 2 \<le> n then Some n else None))"

text \<open>\<open>line.match(/\t|\s{2,}/)\<close> is not null: the expression matches at some position.\<close>

fun reMatch :: "jsstring \<Rightarrow> bool" where
  "reMatch [] = False"
| "reMatch (c # cs) = (matchAt (c # cs) \<noteq> None \<or> reMatch cs)"

text \<open>
  \<open>s.split(/\t|\s{2,}/)\<close>, the loop of \<open>RegExp.prototype[Symbol.split]\<close>: \<open>tok\<close> holds the
  characters from the end of the last separator \<open>p\<close> up to the current position \<open>q\<close>, the
  second argument is the text from \<open>q\<close> on. Without a match at \<open>q\<close> the position advances
  by one code unit; with a match the piece is emitted and both \<open>p\<close> and \<open>q\<close> move behind
  the separator. (The expression never matches the empty string, so the end of a match is
  never \<open>p\<close>.) At the end the remaining piece is emitted.
\<close>

function reSplitFrom :: "jsstring \<Rightarrow> jsstring \<Rightarrow> jsstring list" where
  "reSplitFrom tok [] = [tok]"
| "reSplitFrom tok (c # cs) =
     (case matchAt (c # cs) of
        None \<Rightarrow> reSplitFrom (tok @ [c]) cs
      | Some n \<Rightarrow> tok # reSplitFrom [] (drop n (c # cs)))"
  by pat_completeness auto
termination
  by (relation "measure (\<lambda>(tok, s). length s)")
     (auto simp: matchAt_def Let_def split: if_splits)

definition reSplit :: "jsstring \<Rightarrow> jsstring list" where
  "reSplit s = reSplitFrom [] s"

section \<open>String to number\<close>

text \<open>
  A JavaScript number, as far as the conversion of a string decides it: not-a-number, the
  two infinities, or the mathematical value of the literal. The value is kept exact (a
  rational); the rounding to an IEEE double that \<open>Number\<close> applies afterwards, and the sign
  of zero, are not part of the model.
\<close>

datatype jsnumber = NaN | PosInf | NegInf | Fin rat

definition isDecimalDigit :: "cu \<Rightarrow> bool" where
  "isDecimalDigit c = (0x30 \<le> c \<and> c \<le> 0x39)"

definition isHexDigit :: "cu \<Rightarrow> bool" where
  "isHexDigit c = (isDecimalDigit c \<or> (0x41 \<le> c \<and> c \<le> 0x46) \<or> (0x61 \<le> c \<and> c \<le> 0x66))"

definition isOctalDigit :: "cu \<Rightarrow> bool" where
  "isOctalDigit c = (0x30 \<le> c \<and> c \<le> 0x37)"

definition isBinaryDigit :: "cu \<Rightarrow> bool" where
  "isBinaryDigit c = (c = 0x30 \<or> c = 0x31)"

definition digitValue :: "cu \<Rightarrow> nat" where
  "digitValue c =
     (if isDecimalDigit c then unat c - 0x30
      else if 0x41 \<le> c \<and> c \<le> 0x46 then unat c - 0x41 + 10
      else unat c - 0x61 + 10)"

text \<open>The value of a digit string in a base, most significant digit first.\<close>

definition digitsValue :: "nat \<Rightarrow> jsstring \<Rightarrow> nat" where
  "digitsValue b ds = foldl (\<lambda>acc c. acc * b + digitValue c) 0 ds"

text \<open>
  \<open>ExponentPart\<close>, optional and followed by the end of the string: nothing, or \<open>e\<close> or \<open>E\<close>,
  an optional sign and at least one digit.
\<close>

definition parseExponent :: "jsstring \<Rightarrow> int option" where
  "parseExponent s =
     (case s of
        [] \<Rightarrow> Some 0
      | c # r \<Rightarrow>
          if c = 0x65 \<or> c = 0x45 then
            (case r of
               [] \<Rightarrow> None
             | d # ds \<Rightarrow>
                 if d = 0x2B then
                   (if ds \<noteq> [] \<and> list_all isDecimalDigit ds then Some (int (digitsValue 10 ds)) else None)
                 else if d = 0x2D then
                   (if ds \<noteq> [] \<and> list_all isDecimalDigit ds then Some (- int (digitsValue 10 ds)) else None)
                 else
                   (if list_all isDecimalDigit r then Some (int (digitsValue 10 r)) else None))
          else None)"

definition scale10 :: "rat \<Rightarrow> int \<Rightarrow> rat" where
  "scale10 m e = (if 0 \<le> e then m * 10 ^ nat e else m / 10 ^ nat (- e))"

text \<open>
  \<open>StrUnsignedDecimalLiteral\<close>: \<open>Infinity\<close>, or digits with an optional fraction
  (\<open>12\<close>, \<open>12.\<close>, \<open>12.5\<close>, \<open>.5\<close>) and an optional exponent. \<open>None\<close> when the string is not
  of that form.
\<close>

definition parseUnsignedDecimal :: "jsstring \<Rightarrow> jsnumber option" where
  "parseUnsignedDecimal s =
     (if s = js ''Infinity'' then Some PosInf
      else
        (let ip = takeWhile isDecimalDigit s;
             r1 = dropWhile isDecimalDigit s;
             fp = (case r1 of [] \<Rightarrow> [] | c # r \<Rightarrow> if c = 0x2E then takeWhile isDecimalDigit r else []);
             r2 = (case r1 of [] \<Rightarrow> [] | c # r \<Rightarrow> if c = 0x2E then dropWhile isDecimalDigit r else r1)
         in if ip = [] \<and> fp = [] then None
            else (case parseExponent r2 of
                    None \<Rightarrow> None
                  | Some e \<Rightarrow>
                      Some (Fin (scale10 (of_nat (digitsValue 10 ip)
                                          + of_nat (digitsValue 10 fp) / 10 ^ length fp) e)))))"

definition negate :: "jsnumber \<Rightarrow> jsnumber" where
  "negate n = (case n of NaN \<Rightarrow> NaN | PosInf \<Rightarrow> NegInf | NegInf \<Rightarrow> PosInf | Fin r \<Rightarrow> Fin (- r))"

text \<open>\<open>StrDecimalLiteral\<close>: an unsigned decimal literal with an optional sign.\<close>

definition parseDecimal :: "jsstring \<Rightarrow> jsnumber option" where
  "parseDecimal s =
     (case s of
        [] \<Rightarrow> None
      | c # r \<Rightarrow>
          if c = 0x2B then parseUnsignedDecimal r
          else if c = 0x2D then map_option negate (parseUnsignedDecimal r)
          else parseUnsignedDecimal s)"

text \<open>
  \<open>NonDecimalIntegerLiteral\<close>: \<open>0x\<close>, \<open>0o\<close> or \<open>0b\<close> (either case) and at least one digit of
  the base; no sign.
\<close>

definition parseNonDecimal :: "jsstring \<Rightarrow> jsnumber option" where
  "parseNonDecimal s =
     (case s of
        z # p # ds \<Rightarrow>
          if z = 0x30 \<and> ds \<noteq> [] then
            (if (p = 0x78 \<or> p = 0x58) \<and> list_all isHexDigit ds then Some (Fin (of_nat (digitsValue 16 ds)))
             else if (p = 0x6F \<or> p = 0x4F) \<and> list_all isOctalDigit ds then Some (Fin (of_nat (digitsValue 8 ds)))
             else if (p = 0x62 \<or> p = 0x42) \<and> list_all isBinaryDigit ds then Some (Fin (of_nat (digitsValue 2 ds)))
             else None)
          else None
      | _ \<Rightarrow> None)"

text \<open>
  \<open>StringToNumber\<close>: white space around the literal is ignored, the empty string is 0,
  and a string that is not a \<open>StrNumericLiteral\<close> in full is \<open>NaN\<close>.
\<close>

definition Number :: "jsstring \<Rightarrow> jsnumber" where
  "Number s =
     (let t = trim s in
      if t = [] then Fin 0
      else (case parseDecimal t of
              Some n \<Rightarrow> n
            | None \<Rightarrow> (case parseNonDecimal t of Some n \<Rightarrow> n | None \<Rightarrow> NaN)))"

text \<open>The global \<open>isNaN(x)\<close> on a string: its conversion to a number is \<open>NaN\<close>.\<close>

definition isNaN :: "jsstring \<Rightarrow> bool" where
  "isNaN s = (Number s = NaN)"

section \<open>The grammar of numeric strings\<close>







section \<open>Table extraction\<close>

datatype cell = CNum jsnumber | CStr jsstring

record table =
  headers :: "jsstring list"
  values' :: "cell list list"

text \<open>
  What the code throws: \<open>new Error(message)\<close> of its own, or whatever the file system or
  the PDF parser rejects with.
\<close>

datatype error = Error jsstring | External jsstring

text \<open>The predicate of the \<open>filter\<close> on the lines of the text.\<close>

definition isTableLine :: "jsstring \<Rightarrow> bool" where
  "isTableLine line = (0 < length (trim line) \<and> reMatch line)"

text \<open>The function mapped over the tokens of a data row.\<close>

definition coerce :: "jsstring \<Rightarrow> cell" where
  "coerce value =
     (let trimmed = trim value in
      if \<not> isNaN trimmed \<and> trimmed \<noteq> [] then CNum (Number trimmed) else CStr trimmed)"

text \<open>
  The body of \<open>extractTable\<close> from \<open>data.text\<close> on:
  \<^verbatim>\<open>
  const lines = data.text.split('\n')
    .filter(line => line.trim().length > 0 && line.match(/\t|\s{2,}/));
  if (lines.length < 2) throw new Error(...);
  const rows = lines.map(line => line.trim().split(/\t|\s{2,}/));
  const headers = rows[0];
  const values = rows.slice(1).filter(row => row.length === headers.length)
    .map(row => row.map(value => {
      const trimmed = value.trim();
      return !isNaN(trimmed) && trimmed !== '' ? Number(trimmed) : trimmed;
    }));
  return { headers, values };
  \<close>
  The message of the error is \<open>No table-like data found\<close>. \<open>rows[0]\<close> exists because
  there are at least two lines; on an empty array \<open>headers.length\<close> would throw a
  \<open>TypeError\<close>.
\<close>

definition extractTableText :: "jsstring \<Rightarrow> error + table" where
  "extractTableText text =
     (let lines = filter isTableLine (splitLF text) in
      if length lines < 2 then Inl (Error (js ''No table-like data found''))
      else
        (let rows = map (\<lambda>line. reSplit (trim line)) lines in
         case rows of
           [] \<Rightarrow> Inl (External (js ''TypeError''))
         | hdr # rest \<Rightarrow>
             Inr \<lparr>headers = hdr,
                  values' = map (map coerce) (filter (\<lambda>row. length row = length hdr) rest)\<rparr>))"

section \<open>Rendering\<close>

text \<open>
  \<open>`${cell}`\<close>: a string cell is interpolated as it is, a number cell through
  \<open>Number::toString\<close>. That conversion prints the shortest decimal that reads back as the
  same double; it belongs to the language, not to this program, and is a parameter here.
\<close>

definition cellToString :: "(jsnumber \<Rightarrow> jsstring) \<Rightarrow> cell \<Rightarrow> jsstring" where
  "cellToString toString c = (case c of CNum n \<Rightarrow> toString n | CStr s \<Rightarrow> s)"

text \<open>
  The two fixed parts of the template literal of \<open>generateHTML\<close>, before and after the
  interpolated header and rows, with the line feeds and the indentation of the source.
  The pictograph in the heading is U+1F4CA, two code units.
\<close>

definition htmlHead :: jsstring where
  "htmlHead =
     [LF] @ js ''    <html>'' @
     [LF] @ js ''      <head>'' @
     [LF] @ js ''        <title>Dashboard</title>'' @
     [LF] @ js ''        <style>'' @
     [LF] @ js ''          table { border-collapse: collapse; width: 100%; font-family: Arial, sans-serif; }'' @
     [LF] @ js ''          th, td { border: 1px solid #ccc; padding: 8px; text-align: center; }'' @
     [LF] @ js ''          th { background-color: #eee; }'' @
     [LF] @ js ''        </style>'' @
     [LF] @ js ''      </head>'' @
     [LF] @ js ''      <body>'' @
     [LF] @ js ''        <h1>'' @ [0xD83D, 0xDCCA] @ js '' PDF Table Dashboard</h1>'' @
     [LF] @ js ''        <table>''"

definition htmlTail :: jsstring where
  "htmlTail =
     js ''</table>'' @
     [LF] @ js ''      </body>'' @
     [LF] @ js ''    </html>'' @
     [LF] @ js ''  ''"

text \<open>
  \<^verbatim>\<open>
  const tableRows = values.map(row =>
    `<tr>${row.map(cell => `<td>${cell}</td>`).join('')}</tr>`).join('');
  const tableHeader = `<tr>${headers.map(header => `<th>${header}</th>`).join('')}</tr>`;
  \<close>
\<close>

definition generateHTML :: "(jsnumber \<Rightarrow> jsstring) \<Rightarrow> jsstring list \<Rightarrow> cell list list \<Rightarrow> jsstring" where
  "generateHTML toString hdr vals =
     (let tableRows =
            concat (map (\<lambda>row. js ''<tr>''
                                @ concat (map (\<lambda>c. js ''<td>'' @ cellToString toString c @ js ''</td>'') row)
                                @ js ''</tr>'') vals);
          tableHeader =
            js ''<tr>'' @ concat (map (\<lambda>header. js ''<th>'' @ header @ js ''</th>'') hdr) @ js ''</tr>''
      in htmlHead @ tableHeader @ tableRows @ htmlTail)"

section \<open>The pipeline and its environment\<close>

text \<open>
  What the program calls outside itself: \<open>fs.readFile\<close>, \<open>pdf-parse\<close> (its \<open>text\<close> field),
  \<open>fs.mkdir\<close> with \<open>recursive: true\<close>, \<open>fs.writeFile\<close>, \<open>path.join\<close>, \<open>path.basename\<close>,
  the module's \<open>__dirname\<close> and \<open>Number::toString\<close>. \<open>'fs\<close> is the state of the storage
  backend and \<open>'buf\<close> the contents of a file. The operations that write return the new
  state, also when they fail.
\<close>

record ('fs, 'buf) node =
  readFile :: "'fs \<Rightarrow> jsstring \<Rightarrow> error + 'buf"
  pdfParse :: "'buf \<Rightarrow> error + jsstring"
  mkdir :: "'fs \<Rightarrow> jsstring \<Rightarrow> (error + unit) \<times> 'fs"
  writeFile :: "'fs \<Rightarrow> jsstring \<Rightarrow> jsstring \<Rightarrow> (error + unit) \<times> 'fs"
  pathJoin :: "jsstring \<Rightarrow> jsstring \<Rightarrow> jsstring"
  pathBasename :: "jsstring \<Rightarrow> jsstring \<Rightarrow> jsstring"
  dirname :: jsstring
  numberToString :: "jsnumber \<Rightarrow> jsstring"

text \<open>
  \<open>extractTable(filePath)\<close>: read the file, parse it, and extract from the text.
  \<^verbatim>\<open>
  const buffer = await fs.readFile(filePath);
  const data = await pdfParse(buffer);
  \<close>
\<close>

definition extractTable :: "('fs, 'buf) node \<Rightarrow> 'fs \<Rightarrow> jsstring \<Rightarrow> error + table" where
  "extractTable nd s filePath =
     (case readFile nd s filePath of
        Inl e \<Rightarrow> Inl e
      | Inr buffer \<Rightarrow>
          (case pdfParse nd buffer of
             Inl e \<Rightarrow> Inl e
           | Inr text \<Rightarrow> extractTableText text))"

text \<open>
  \<^verbatim>\<open>
  const saveHTMLToFile = async (htmlContent, filename) => {
    const dashboardDir = path.join(__dirname, '../dashboards');
    await fs.mkdir(dashboardDir, { recursive: true });
    const outputPath = path.join(dashboardDir, `${filename}.html`);
    await fs.writeFile(outputPath, htmlContent);
    return outputPath;
  };
  \<close>
\<close>

definition saveHTMLToFile ::
    "('fs, 'buf) node \<Rightarrow> 'fs \<Rightarrow> jsstring \<Rightarrow> jsstring \<Rightarrow> (error + jsstring) \<times> 'fs" where
  "saveHTMLToFile nd s htmlContent filename =
     (let dashboardDir = pathJoin nd (dirname nd) (js ''../dashboards'') in
      case mkdir nd s dashboardDir of
        (Inl e, s1) \<Rightarrow> (Inl e, s1)
      | (Inr _, s1) \<Rightarrow>
          (let outputPath = pathJoin nd dashboardDir (filename @ js ''.html'') in
           case writeFile nd s1 outputPath htmlContent of
             (Inl e, s2) \<Rightarrow> (Inl e, s2)
           | (Inr _, s2) \<Rightarrow> (Inr outputPath, s2)))"

text \<open>
  \<^verbatim>\<open>
  const { headers, values } = await extractTable(filePath);
  const html = generateHTML(headers, values);
  const htmlFile = await saveHTMLToFile(html, path.basename(filePath, '.pdf'));
  return htmlFile;
  \<close>
  A rejected \<open>await\<close> ends the function with that error; the statements after it do not
  run.
\<close>

definition pdfTableToHTMLDashboard ::
    "('fs, 'buf) node \<Rightarrow> 'fs \<Rightarrow> jsstring \<Rightarrow> (error + jsstring) \<times> 'fs" where
  "pdfTableToHTMLDashboard nd s filePath =
     (case extractTable nd s filePath of
        Inl e \<Rightarrow> (Inl e, s)
      | Inr tb \<Rightarrow>
          (let html = generateHTML (numberToString nd) (headers tb) (values' tb) in
           saveHTMLToFile nd s html (pathBasename nd filePath (js ''.pdf''))))"

section \<open>The wording of the specification\<close>

text \<open>
  ``Contains a run of two or more consecutive whitespace characters'': two neighbours
  that are both white space.
\<close>

fun hasWhiteSpaceRun :: "jsstring \<Rightarrow> bool" where
  "hasWhiteSpaceRun (a # b # cs) = ((isWhiteSpace a \<and> isWhiteSpace b) \<or> hasWhiteSpaceRun (b # cs))"
| "hasWhiteSpaceRun _ = False"

text \<open>
  The candidate filter in the specification's words: non-blank after trimming, and
  containing a tab or a run of two or more white space characters.
\<close>

definition specCandidate :: "jsstring \<Rightarrow> bool" where
  "specCandidate line = (trim line \<noteq> [] \<and> (TAB \<in> set line \<or> hasWhiteSpaceRun line))"




section \<open>A small environment for examples\<close>

text \<open>
  An in-memory store: a file system is a list of paths with their contents, newest first;
  the text layer of a stored document is its content; directories always exist; paths are
  joined with a slash and not normalised; numbers that are integers print in decimal, as
  \<open>Number::toString\<close> prints them below \<open>10^21\<close> (the examples render no others).
\<close>

type_synonym memfs = "(jsstring \<times> jsstring) list"

fun decimalDigitsOf :: "nat \<Rightarrow> nat \<Rightarrow> jsstring" where
  "decimalDigitsOf 0 n = []"
| "decimalDigitsOf (Suc k) n =
     (if n < 10 then [of_nat (0x30 + n)]
      else decimalDigitsOf k (n div 10) @ [of_nat (0x30 + n mod 10)])"

definition memNumberToString :: "jsnumber \<Rightarrow> jsstring" where
  "memNumberToString x =
     (case x of
        NaN \<Rightarrow> js ''NaN''
      | PosInf \<Rightarrow> js ''Infinity''
      | NegInf \<Rightarrow> js ''-Infinity''
      | Fin r \<Rightarrow>
          (if r < 0 then js ''-'' else []) @ decimalDigitsOf 21 (nat \<bar>\<lfloor>r\<rfloor>\<bar>))"

definition memBasename :: "jsstring \<Rightarrow> jsstring \<Rightarrow> jsstring" where
  "memBasename p ext =
     (let b = rev (takeWhile (\<lambda>c. c \<noteq> 0x2F) (rev p)) in
      if suffix ext b \<and> b \<noteq> ext then take (length b - length ext) b else b)"

definition memNode :: "(memfs, jsstring) node" where
  "memNode =
     \<lparr>readFile = (\<lambda>s p. case map_of s p of None \<Rightarrow> Inl (External (js ''ENOENT'')) | Some b \<Rightarrow> Inr b),
      pdfParse = (\<lambda>b. if b = [] then Inl (External (js ''InvalidPDF'')) else Inr b),
      mkdir = (\<lambda>s d. (Inr (), s)),
      writeFile = (\<lambda>s p c. (Inr (), (p, c) # s)),
      pathJoin = (\<lambda>a b. a @ js ''/'' @ b),
      pathBasename = memBasename,
      dirname = js ''/app/utils'',
      numberToString = memNumberToString\<rparr>"

definition exampleRagged :: jsstring where
  "exampleRagged =
     js ''A'' @ [TAB] @ js ''B'' @ [LF] @
     js ''x'' @ [TAB] @ js ''y'' @ [TAB] @ js ''z'' @ [LF] @
     js ''1'' @ [TAB] @ js ''2''"

definition exampleProse :: jsstring where
  "exampleProse = js ''Name   Score'' @ [LF] @ js ''just one line of prose''"

definition scriptTable :: "cell list list" where
  "scriptTable = [[CStr (js ''<script>alert(1)</script>''), CNum (Fin 7)]]"



definition exampleHeaderOnly :: jsstring where
  "exampleHeaderOnly =
     js ''A'' @ [TAB] @ js ''B'' @ [LF] @ js ''x'' @ [TAB] @ js ''y'' @ [TAB] @ js ''z''"

definition exampleHeaderSpace :: jsstring where
  "exampleHeaderSpace =
     js ''A'' @ [TAB] @ js '' B'' @ [LF] @ js ''x'' @ [TAB] @ js '' y''"

definition exampleStore :: memfs where
  "exampleStore = [(js ''/up/prose.pdf'', exampleProse), (js ''/up/table.pdf'', exampleRagged)]"


definition exampleIndented :: jsstring where
  "exampleIndented = js ''    Summary of results'' @ [LF] @ js ''x'' @ [TAB] @ js ''y''"

definition exampleIndentedTab :: jsstring where
  "exampleIndentedTab = js ''  a'' @ [TAB] @ js ''b'' @ [LF] @ js ''x'' @ [TAB] @ js ''y''"

section \<open>The separator expression and the wording of the specification\<close>

lemma isWhiteSpace_TAB: "isWhiteSpace TAB"
  by (simp add: isWhiteSpace_def TAB_def)

lemma matchAt_Cons:
  "matchAt (c # cs) \<noteq> None \<longleftrightarrow>
   c = TAB \<or> (isWhiteSpace c \<and> (\<exists>d ds. cs = d # ds \<and> isWhiteSpace d))"
  by (cases cs) (auto simp: matchAt_def Let_def)

lemma reMatch_iff: "reMatch s \<longleftrightarrow> TAB \<in> set s \<or> hasWhiteSpaceRun s"
proof (induction s)
  case Nil
  show ?case by simp
next
  case (Cons a s)
  show ?case
  proof (cases s)
    case Nil
    then show ?thesis using matchAt_Cons [of a "[]"] by auto
  next
    case (Cons b cs)
    have "reMatch (a # b # cs) \<longleftrightarrow> matchAt (a # b # cs) \<noteq> None \<or> reMatch (b # cs)"
      by simp
    also have "\<dots> \<longleftrightarrow> (a = TAB \<or> (isWhiteSpace a \<and> isWhiteSpace b))
                        \<or> (TAB \<in> set (b # cs) \<or> hasWhiteSpaceRun (b # cs))"
      using Cons.IH Cons by (simp only: matchAt_Cons) auto
    also have "\<dots> \<longleftrightarrow> TAB \<in> set (a # b # cs) \<or> hasWhiteSpaceRun (a # b # cs)"
      by auto
    finally show ?thesis using Cons by simp
  qed
qed

lemma isTableLine_spec: "isTableLine line = specCandidate line"
  by (simp add: isTableLine_def specCandidate_def reMatch_iff)

section \<open>Trimming and splitting\<close>

lemma dropWhile_id: "xs = [] \<or> \<not> P (hd xs) \<Longrightarrow> dropWhile P xs = xs"
  by (cases xs) auto

lemma trim_ends:
  assumes "trim s \<noteq> []"
  shows "\<not> isWhiteSpace (hd (trim s))" and "\<not> isWhiteSpace (last (trim s))"
proof -
  define u where "u = dropWhile isWhiteSpace s"
  define v where "v = dropWhile isWhiteSpace (rev u)"
  have t: "trim s = rev v" by (simp add: trim_def u_def v_def)
  with assms have v: "v \<noteq> []" by simp
  then have "\<not> isWhiteSpace (hd v)" unfolding v_def by (rule hd_dropWhile)
  with v show "\<not> isWhiteSpace (last (trim s))"
    by (simp add: t last_rev)
  have "suffix v (rev u)" unfolding v_def by (rule suffix_dropWhile)
  then have "prefix (rev v) u"
    by (simp add: suffix_to_prefix)
  then obtain zs where zs: "u = rev v @ zs"
    by (auto simp: prefix_def)
  with v have "u \<noteq> []" and "hd u = hd (rev v)" by simp_all
  moreover from \<open>u \<noteq> []\<close> have "\<not> isWhiteSpace (hd u)"
    unfolding u_def by (rule hd_dropWhile)
  ultimately show "\<not> isWhiteSpace (hd (trim s))"
    by (simp add: t)
qed



lemma trim_indent:
  assumes "list_all isWhiteSpace lead" and "list_all isWhiteSpace trail"
      and "core \<noteq> []" and "\<not> isWhiteSpace (hd core)" and "\<not> isWhiteSpace (last core)"
  shows "trim (lead @ core @ trail) = core"
proof -
  have "dropWhile isWhiteSpace (lead @ core @ trail) = dropWhile isWhiteSpace (core @ trail)"
    using assms(1) by (simp add: list_all_iff)
  also have "\<dots> = core @ trail"
    using assms(3,4) by (intro dropWhile_id) simp
  finally have 1: "dropWhile isWhiteSpace (lead @ core @ trail) = core @ trail" .
  have "dropWhile isWhiteSpace (rev trail @ rev core) = dropWhile isWhiteSpace (rev core)"
    using assms(2) by (intro dropWhile_append2) (simp add: list_all_iff)
  also have "\<dots> = rev core"
    using assms(3,5) by (intro dropWhile_id) (simp add: hd_rev)
  finally show ?thesis
    by (simp add: trim_def 1)
qed

lemma reSplitFrom_no_match: "\<not> reMatch s \<Longrightarrow> reSplitFrom tok s = [tok @ s]"
  by (induction s arbitrary: tok) auto

lemma hasWhiteSpaceRun_append: "hasWhiteSpaceRun ys \<Longrightarrow> hasWhiteSpaceRun (xs @ ys)"
proof (induction xs)
  case Nil
  then show ?case by simp
next
  case (Cons a xs)
  then show ?case by (cases "xs @ ys") auto
qed

lemma hasWhiteSpaceRun_two:
  "2 \<le> length xs \<Longrightarrow> list_all isWhiteSpace xs \<Longrightarrow> hasWhiteSpaceRun (xs @ ys)"
  by (cases xs; cases "tl xs") auto

section \<open>The two outcomes of extraction\<close>

lemma extractTableText_few:
  "length (filter isTableLine (splitLF text)) < 2 \<Longrightarrow>
   extractTableText text = Inl (Error (js ''No table-like data found''))"
  by (simp add: extractTableText_def)

lemma extractTableText_ok:
  assumes "filter isTableLine (splitLF text) = l # ls" and "ls \<noteq> []"
  shows "extractTableText text =
         Inr \<lparr>headers = reSplit (trim l),
              values' = map (map coerce)
                          (filter (\<lambda>row. length row = length (reSplit (trim l)))
                                  (map (\<lambda>line. reSplit (trim line)) ls))\<rparr>"
proof -
  from assms have "\<not> length (filter isTableLine (splitLF text)) < 2"
    by (cases ls) simp_all
  then show ?thesis
    using assms(1) by (simp add: extractTableText_def)
qed

lemma extractTableText_Inr:
  assumes "extractTableText text = Inr tb"
  obtains l ls where "filter isTableLine (splitLF text) = l # ls" and "ls \<noteq> []"
proof -
  from assms have len: "\<not> length (filter isTableLine (splitLF text)) < 2"
    by (auto simp: extractTableText_def Let_def split: if_splits)
  then obtain l ls where "filter isTableLine (splitLF text) = l # ls"
    by (cases "filter isTableLine (splitLF text)") auto
  moreover from this len have "ls \<noteq> []" by auto
  ultimately show thesis by (rule that)
qed

text \<open>
  Claim C1. Every row of a table returned by the extraction has as many cells as there
  are headers: the rows are exactly the tokenized data lines (the candidate lines after
  the first) whose number of tokens equals the number of headers, coerced cell by cell;
  a data line with another number of tokens is not among them.
\<close>

theorem rows_match_headers:
  assumes "extractTableText text = Inr tb"
  shows "(\<forall>row \<in> set (values' tb). length row = length (headers tb)) \<and>
         values' tb =
           map (map coerce)
             (filter (\<lambda>toks. length toks = length (headers tb))
                (map (\<lambda>line. reSplit (trim line)) (tl (filter isTableLine (splitLF text)))))"
proof -
  from assms obtain l ls where c: "filter isTableLine (splitLF text) = l # ls" "ls \<noteq> []"
    by (rule extractTableText_Inr)
  from extractTableText_ok [OF c] assms
  have tb: "tb = \<lparr>headers = reSplit (trim l),
              values' = map (map coerce)
                          (filter (\<lambda>row. length row = length (reSplit (trim l)))
                                  (map (\<lambda>line. reSplit (trim line)) ls))\<rparr>"
    by simp
  show ?thesis
    by (simp add: tb c(1))
qed

text \<open>
  The theorem at a text of three candidate lines whose second has three tokens under two
  headers: that line is dropped, the third is kept.
\<close>

theorem rows_match_headers_witness:
  "extractTableText exampleRagged =
     Inr \<lparr>headers = [js ''A'', js ''B''], values' = [[CNum (Fin 1), CNum (Fin 2)]]\<rparr>
   \<and> list_all (\<lambda>row. length row = length [js ''A'', js ''B''])
        (values' \<lparr>headers = [js ''A'', js ''B''], values' = [[CNum (Fin 1), CNum (Fin 2)]]\<rparr>)"
proof -
  have h: "extractTableText exampleRagged =
             Inr \<lparr>headers = [js ''A'', js ''B''], values' = [[CNum (Fin 1), CNum (Fin 2)]]\<rparr>"
    by code_simp
  from rows_match_headers [OF h]
  have "\<forall>row \<in> set (values' \<lparr>headers = [js ''A'', js ''B''],
                                  values' = [[CNum (Fin 1), CNum (Fin 2)]]\<rparr>).
          length row = length (headers \<lparr>headers = [js ''A'', js ''B''],
                                         values' = [[CNum (Fin 1), CNum (Fin 2)]]\<rparr>)"
    by (rule conjunct1)
  with h show ?thesis by simp
qed

text \<open>
  Claim C2. When fewer than two lines of the text pass the candidate filter as the
  specification words it (non-blank after trimming, and containing a tab or two
  neighbouring white space characters), the extraction fails with the error whose message
  is ``No table-like data found'', and returns no table.
\<close>

theorem too_few_candidates_fail:
  assumes "length (filter specCandidate (splitLF text)) < 2"
  shows "extractTableText text = Inl (Error (js ''No table-like data found'')) \<and>
         (\<forall>tb. extractTableText text \<noteq> Inr tb)"
proof -
  have "filter specCandidate (splitLF text) = filter isTableLine (splitLF text)"
    by (simp add: isTableLine_spec [abs_def])
  with assms show ?thesis
    by (simp add: extractTableText_few)
qed

theorem too_few_candidates_fail_witness:
  "length (filter specCandidate (splitLF exampleProse)) < 2
   \<and> extractTableText exampleProse = Inl (Error (js ''No table-like data found''))"
proof -
  have h: "length (filter specCandidate (splitLF exampleProse)) < 2"
    by code_simp
  show ?thesis
    using h too_few_candidates_fail [OF h] by simp
qed

section \<open>Rendering of string cells\<close>

lemma concat_map_mem:
  assumes "x \<in> set xs"
  shows "\<exists>ps ss. concat (map f xs) = ps @ f x @ ss"
proof -
  from assms obtain as bs where "xs = as @ x # bs"
    by (auto dest: split_list)
  then have "concat (map f xs) = concat (map f as) @ f x @ concat (map f bs)"
    by simp
  then show ?thesis by blast
qed

lemma sublist_mid: "sublist ys b \<Longrightarrow> sublist ys (a @ b @ c)"
  by (metis sublist_appendI sublist_order.order_trans)

lemma sublist_concat_map:
  assumes "x \<in> set xs" and "sublist ys (f x)"
  shows "sublist ys (concat (map f xs))"
proof -
  from concat_map_mem [OF assms(1)] obtain ps ss where "concat (map f xs) = ps @ f x @ ss"
    by blast
  with sublist_mid [OF assms(2)] show ?thesis by simp
qed

text \<open>
  Claim C3, as the code has it. The rendering escapes nothing: every string cell of every
  row stands in the output between \<open><td>\<close> and \<open></td>\<close> exactly as it is in the table,
  angle brackets and ampersands included. A cell that contains \<open><script>\<close> is therefore
  in the output as markup.
\<close>

theorem string_cells_rendered_verbatim:
  assumes "row \<in> set vals" and "CStr s \<in> set row"
  shows "sublist (js ''<td>'' @ s @ js ''</td>'') (generateHTML toString hdr vals)"
proof -
  let ?cellf = "\<lambda>c. js ''<td>'' @ cellToString toString c @ js ''</td>''"
  let ?rowf = "\<lambda>row. js ''<tr>'' @ concat (map ?cellf row) @ js ''</tr>''"
  have "?cellf (CStr s) = js ''<td>'' @ s @ js ''</td>''"
    by (simp add: cellToString_def)
  then have "sublist (js ''<td>'' @ s @ js ''</td>'') (concat (map ?cellf row))"
    using sublist_concat_map [OF assms(2), of _ ?cellf] by simp
  then have "sublist (js ''<td>'' @ s @ js ''</td>'') (?rowf row)"
    by (rule sublist_mid)
  then have "sublist (js ''<td>'' @ s @ js ''</td>'') (concat (map ?rowf vals))"
    by (rule sublist_concat_map [OF assms(1)])
  then have "sublist (js ''<td>'' @ s @ js ''</td>'')
               ((htmlHead @ js ''<tr>''
                   @ concat (map (\<lambda>header. js ''<th>'' @ header @ js ''</th>'') hdr) @ js ''</tr>'')
                @ concat (map ?rowf vals) @ htmlTail)"
    by (rule sublist_mid)
  then show ?thesis
    by (simp add: generateHTML_def)
qed

theorem string_cells_rendered_verbatim_witness:
  "sublist (js ''<td>'' @ js ''<script>alert(1)</script>'' @ js ''</td>'')
     (generateHTML memNumberToString [js ''Note'', js ''N''] scriptTable)"
  using string_cells_rendered_verbatim
          [of "[CStr (js ''<script>alert(1)</script>''), CNum (Fin 7)]" scriptTable
              "js ''<script>alert(1)</script>''" memNumberToString "[js ''Note'', js ''N'']"]
  by (simp add: scriptTable_def)

text \<open>
  Claim C3 as stated fails: for a table with the cell \<open><script>alert(1)</script>\<close> the
  output contains the cell as it is and does not contain the escaped \<open>&lt;script&gt;\<close>.
\<close>

theorem script_cell_is_live_markup:
  "sublist (js ''<td><script>alert(1)</script></td>'')
     (generateHTML memNumberToString [js ''Note'', js ''N''] scriptTable)
   \<and> \<not> sublist (js ''&lt;script&gt;'')
         (generateHTML memNumberToString [js ''Note'', js ''N''] scriptTable)"
  by code_simp

section \<open>The examples of the specification\<close>



section \<open>When the extraction fails\<close>

text \<open>
  Claim C6, as the code has it. The extraction fails exactly when fewer than two candidate
  lines are found. With two or more it returns a table, also when no data line has the
  headers' number of tokens: the table then has the headers and no rows.
\<close>

theorem extract_fails_only_on_few_candidates:
  "((\<exists>e. extractTableText text = Inl e) \<longleftrightarrow> length (filter isTableLine (splitLF text)) < 2) \<and>
   (2 \<le> length (filter isTableLine (splitLF text)) \<longrightarrow>
      (\<exists>tb. extractTableText text = Inr tb \<and>
            ((\<forall>line \<in> set (tl (filter isTableLine (splitLF text))).
                 length (reSplit (trim line)) \<noteq> length (headers tb)) \<longrightarrow> values' tb = [])))"
proof (cases "length (filter isTableLine (splitLF text)) < 2")
  case True
  then show ?thesis by (simp add: extractTableText_few)
next
  case False
  then obtain l ls where c: "filter isTableLine (splitLF text) = l # ls" "ls \<noteq> []"
    by (cases "filter isTableLine (splitLF text)") auto
  show ?thesis
    using False by (simp add: extractTableText_ok [OF c] c(1) filter_empty_conv)
qed

theorem extract_fails_only_on_few_candidates_witness:
  "length (filter isTableLine (splitLF exampleHeaderOnly)) = 2
   \<and> \<not> (\<exists>e. extractTableText exampleHeaderOnly = Inl e)"
proof -
  have h: "length (filter isTableLine (splitLF exampleHeaderOnly)) = 2"
    by code_simp
  from extract_fails_only_on_few_candidates [of exampleHeaderOnly]
  have "(\<exists>e. extractTableText exampleHeaderOnly = Inl e)
          \<longleftrightarrow> length (filter isTableLine (splitLF exampleHeaderOnly)) < 2"
    by (rule conjunct1)
  with h show ?thesis by simp
qed

text \<open>
  Claim C6 as stated fails: two candidate lines, the second with three tokens under two
  headers, give a table with headers and no rows, not an error.
\<close>

theorem header_only_counterexample:
  "extractTableText exampleHeaderOnly = Inr \<lparr>headers = [js ''A'', js ''B''], values' = []\<rparr>
   \<and> length (filter isTableLine (splitLF exampleHeaderOnly)) = 2"
  by code_simp

section \<open>Header labels\<close>

text \<open>
  The cells of the data rows are trimmed token by token: a string cell of a returned table
  neither starts nor ends with white space.
\<close>

lemma coerce_CStr: "coerce v = CStr s \<Longrightarrow> s = trim v"
  by (auto simp: coerce_def Let_def split: if_splits)

lemma data_cells_are_trimmed:
  assumes "extractTableText text = Inr tb" and "row \<in> set (values' tb)"
      and "CStr s \<in> set row" and "s \<noteq> []"
  shows "\<not> isWhiteSpace (hd s) \<and> \<not> isWhiteSpace (last s)"
proof -
  from assms(1) obtain l ls where c: "filter isTableLine (splitLF text) = l # ls" "ls \<noteq> []"
    by (rule extractTableText_Inr)
  from extractTableText_ok [OF c] assms(1)
  have "values' tb = map (map coerce)
                       (filter (\<lambda>row. length row = length (reSplit (trim l)))
                               (map (\<lambda>line. reSplit (trim line)) ls))"
    by auto
  with assms(2) obtain toks where "row = map coerce toks"
    by auto
  with assms(3) obtain v where "coerce v = CStr s"
    by auto
  then have "s = trim v" by (rule coerce_CStr)
  with assms(4) show ?thesis
    using trim_ends [of v] by simp
qed

text \<open>
  Claim C7 at the header line \<open>A\t B\<close> and the data line \<open>x\t y\<close>: the tokens of the data
  line are trimmed, the tokens of the header line are not, and the second header keeps
  its leading space.
\<close>

theorem header_keeps_leading_space:
  "extractTableText exampleHeaderSpace =
     Inr \<lparr>headers = [js ''A'', js '' B''], values' = [[CStr (js ''x''), CStr (js ''y'')]]\<rparr>"
  by code_simp

section \<open>The pipeline\<close>

text \<open>
  Claim C8. When the extraction fails, with any error of reading, parsing or finding no
  table, the pipeline returns that error and the state of the storage backend is the one
  it started from: nothing was created or written. The writer runs only when the table
  exists, and then on the fully rendered report.
\<close>

theorem no_report_on_failure:
  "(extractTable nd s filePath = Inl e \<longrightarrow> pdfTableToHTMLDashboard nd s filePath = (Inl e, s)) \<and>
   (readFile nd s filePath = Inr buffer \<and> pdfParse nd buffer = Inr text \<and>
      length (filter isTableLine (splitLF text)) < 2 \<longrightarrow>
      pdfTableToHTMLDashboard nd s filePath = (Inl (Error (js ''No table-like data found'')), s)) \<and>
   (extractTable nd s filePath = Inr tb \<longrightarrow>
      pdfTableToHTMLDashboard nd s filePath =
        saveHTMLToFile nd s (generateHTML (numberToString nd) (headers tb) (values' tb))
          (pathBasename nd filePath (js ''.pdf'')))"
  by (simp add: pdfTableToHTMLDashboard_def extractTable_def extractTableText_few)

theorem no_report_on_failure_witness:
  "extractTable memNode exampleStore (js ''/up/prose.pdf'')
     = Inl (Error (js ''No table-like data found''))
   \<and> pdfTableToHTMLDashboard memNode exampleStore (js ''/up/prose.pdf'')
       = (Inl (Error (js ''No table-like data found'')), exampleStore)"
proof -
  have h: "extractTable memNode exampleStore (js ''/up/prose.pdf'')
             = Inl (Error (js ''No table-like data found''))"
    by code_simp
  from no_report_on_failure [of memNode exampleStore "js ''/up/prose.pdf''"
                               "Error (js ''No table-like data found'')"] h
  show ?thesis by blast
qed



section \<open>Numeric strings: the parser and the grammar\<close>

























section \<open>Lines that are tabular by their indentation only\<close>

text \<open>
  Claim C10, as the code has it. The shape test reads the line before it is trimmed. A
  line made of white space, a core that starts and ends with a character that is not
  white space, and white space again is a candidate when the leading or the trailing
  white space has two characters or more. When the core has no two neighbouring white
  space characters and no tab, the trimmed line is a single token; as the first candidate
  of a text with a further candidate, it gives a table of one column.
\<close>

theorem indentation_only_line_is_single_cell:
  assumes "list_all isWhiteSpace lead" and "list_all isWhiteSpace trail"
      and "core \<noteq> []" and "\<not> isWhiteSpace (hd core)" and "\<not> isWhiteSpace (last core)"
      and "2 \<le> length lead \<or> 2 \<le> length trail"
      and "\<not> hasWhiteSpaceRun core" and "TAB \<notin> set core"
  shows "isTableLine (lead @ core @ trail) \<and>
         reSplit (trim (lead @ core @ trail)) = [core] \<and>
         (\<forall>text more. filter isTableLine (splitLF text) = (lead @ core @ trail) # more \<and> more \<noteq> []
            \<longrightarrow> (\<exists>tb. extractTableText text = Inr tb \<and> headers tb = [core]
                      \<and> length (headers tb) = 1))"
proof -
  have t: "trim (lead @ core @ trail) = core"
    using assms(1-5) by (rule trim_indent)
  have "hasWhiteSpaceRun (lead @ core @ trail)"
  proof (rule disjE [OF assms(6)])
    assume "2 \<le> length lead"
    then show ?thesis using assms(1) by (rule hasWhiteSpaceRun_two)
  next
    assume "2 \<le> length trail"
    then have "hasWhiteSpaceRun (trail @ [])" using assms(2) by (rule hasWhiteSpaceRun_two)
    then have "hasWhiteSpaceRun ((lead @ core) @ trail)"
      by (simp add: hasWhiteSpaceRun_append del: append_assoc)
    then show ?thesis by simp
  qed
  then have c: "isTableLine (lead @ core @ trail)"
    using assms(3) by (simp add: isTableLine_def reMatch_iff t)
  have "\<not> reMatch core"
    using assms(7,8) by (simp add: reMatch_iff)
  then have s: "reSplit core = [core]"
    by (simp add: reSplit_def reSplitFrom_no_match)
  show ?thesis
    using c s t by (auto simp: extractTableText_ok)
qed

theorem indentation_only_line_is_single_cell_witness:
  "isTableLine (js ''    Summary of results'')
   \<and> reSplit (trim (js ''    Summary of results'')) = [js ''Summary of results'']
   \<and> extractTableText exampleIndented =
       Inr \<lparr>headers = [js ''Summary of results''], values' = []\<rparr>"
proof -
  have e: "extractTableText exampleIndented =
             Inr \<lparr>headers = [js ''Summary of results''], values' = []\<rparr>"
    by code_simp
  have "list_all isWhiteSpace (js ''    '')" by code_simp
  moreover have "list_all isWhiteSpace []" by simp
  moreover have "js ''Summary of results'' \<noteq> []" by code_simp
  moreover have "\<not> isWhiteSpace (hd (js ''Summary of results''))" by code_simp
  moreover have "\<not> isWhiteSpace (last (js ''Summary of results''))" by code_simp
  moreover have "2 \<le> length (js ''    '') \<or> 2 \<le> length ([] :: jsstring)" by code_simp
  moreover have "\<not> hasWhiteSpaceRun (js ''Summary of results'')" by code_simp
  moreover have "TAB \<notin> set (js ''Summary of results'')" by code_simp
  ultimately have "isTableLine (js ''    '' @ js ''Summary of results'' @ []) \<and>
         reSplit (trim (js ''    '' @ js ''Summary of results'' @ [])) = [js ''Summary of results'']"
    using indentation_only_line_is_single_cell
            [of "js ''    ''" "[]" "js ''Summary of results''"] by blast
  with e show ?thesis by (simp add: js_def)
qed

text \<open>
  Claim C10 as stated fails on a tab inside the line: \<open>a\tb\<close> behind two spaces has its
  only run of white space in the indentation, and it has two tokens.
\<close>

theorem indented_line_with_tab_counterexample:
  "list_all isWhiteSpace (js ''  '')
   \<and> \<not> isWhiteSpace (hd (js ''a'' @ [TAB] @ js ''b''))
   \<and> \<not> isWhiteSpace (last (js ''a'' @ [TAB] @ js ''b''))
   \<and> \<not> hasWhiteSpaceRun (js ''a'' @ [TAB] @ js ''b'')
   \<and> isTableLine (js ''  '' @ js ''a'' @ [TAB] @ js ''b'')
   \<and> reSplit (trim (js ''  '' @ js ''a'' @ [TAB] @ js ''b'')) = [js ''a'', js ''b'']
   \<and> extractTableText exampleIndentedTab =
       Inr \<lparr>headers = [js ''a'', js ''b''], values' = [[CStr (js ''x''), CStr (js ''y'')]]\<rparr>"
  by code_simp

end
